theory Spec2Isabelle
  imports Complex_Main "HOL-Library.Word" "HOL-Library.Sublist"
begin

section \<open>JavaScript values and strings\<close>

text \<open>
  A JavaScript string is a sequence of UTF-16 code units; the regular expressions of
  \<^verbatim>\<open>src/lib/sanitize.ts\<close> have no \<^verbatim>\<open>u\<close> flag, so they, \<^verbatim>\<open>trim\<close>, \<^verbatim>\<open>substring\<close>,
  \<^verbatim>\<open>split\<close> and \<^verbatim>\<open>length\<close> all work on code units.  A string literal of the source is
  written \<open>js ''...''\<close>.
\<close>

type_synonym code_unit = "16 word"
type_synonym jsstring = "code_unit list"

definition js :: "string \<Rightarrow> jsstring" where
  "js s = map (\<lambda>c. of_nat (of_char c)) s"

text \<open>
  The sanitizers are declared on \<^verbatim>\<open>string | null | undefined\<close> and guard themselves
  with \<^verbatim>\<open>!input || typeof input !== 'string'\<close>, so the model keeps the other runtime
  values too.  Calling a string method on a value that is not a string throws a
  \<^verbatim>\<open>TypeError\<close>.
\<close>

datatype js_value =
    JNull
  | JUndefined
  | JBoolean bool
  | JNumber int
  | JNaN
  | JBigInt int
  | JSymbol
  | JFunction
  | JObject
  | JArray "jsstring list"
  | JString jsstring

datatype js_type =
  TyUndefined | TyObject | TyBoolean | TyNumber | TyBigInt | TySymbol | TyFunction | TyString

datatype js_error = TypeError

fun typeof :: "js_value \<Rightarrow> js_type" where
  "typeof JNull = TyObject"
| "typeof JUndefined = TyUndefined"
| "typeof (JBoolean b) = TyBoolean"
| "typeof (JNumber n) = TyNumber"
| "typeof JNaN = TyNumber"
| "typeof (JBigInt n) = TyBigInt"
| "typeof JSymbol = TySymbol"
| "typeof JFunction = TyFunction"
| "typeof JObject = TyObject"
| "typeof (JArray xs) = TyObject"
| "typeof (JString s) = TyString"

fun truthy :: "js_value \<Rightarrow> bool" where
  "truthy JNull = False"
| "truthy JUndefined = False"
| "truthy (JBoolean b) = b"
| "truthy (JNumber n) = (n \<noteq> 0)"
| "truthy JNaN = False"
| "truthy (JBigInt n) = (n \<noteq> 0)"
| "truthy JSymbol = True"
| "truthy JFunction = True"
| "truthy JObject = True"
| "truthy (JArray xs) = True"
| "truthy (JString s) = (s \<noteq> [])"

section \<open>String methods and the regular expressions of the sanitizers\<close>

definition cu :: "char \<Rightarrow> code_unit" where
  "cu c = of_nat (of_char c)"

text \<open>
  \<^verbatim>\<open>String.prototype.trim\<close> removes WhiteSpace and LineTerminator code units from both
  ends; the class \<^verbatim>\<open>\s\<close> of a regular expression is the same set.
\<close>

definition is_whitespace :: "code_unit \<Rightarrow> bool" where
  "is_whitespace c =
     (c = 0x09 \<or> c = 0x0A \<or> c = 0x0B \<or> c = 0x0C \<or> c = 0x0D \<or> c = 0x20 \<or> c = 0xA0
      \<or> c = 0x1680 \<or> (0x2000 \<le> c \<and> c \<le> 0x200A) \<or> c = 0x2028 \<or> c = 0x2029
      \<or> c = 0x202F \<or> c = 0x205F \<or> c = 0x3000 \<or> c = 0xFEFF)"

definition trim :: "jsstring \<Rightarrow> jsstring" where
  "trim s = rev (dropWhile is_whitespace (rev (dropWhile is_whitespace s)))"

text \<open>\<^verbatim>\<open>s.substring(0, n)\<close> for a literal \<open>n \<ge> 0\<close>.\<close>

definition substring0 :: "nat \<Rightarrow> jsstring \<Rightarrow> jsstring" where
  "substring0 n s = take n s"

text \<open>
  \<^verbatim>\<open>s.replace(/[class]/g, replacement)\<close>: every code unit of the class is replaced, the
  others are kept.  The replacement strings of the source contain no dollar sign.
\<close>

definition replace_class :: "(code_unit \<Rightarrow> bool) \<Rightarrow> jsstring \<Rightarrow> jsstring \<Rightarrow> jsstring" where
  "replace_class cls replacement s = concat (map (\<lambda>c. if cls c then replacement else [c]) s)"

text \<open>The class \<^verbatim>\<open>[\x00-\x08\x0B\x0C\x0E-\x1F\x7F]\<close>.\<close>

definition is_control :: "code_unit \<Rightarrow> bool" where
  "is_control c = (c \<le> 0x08 \<or> c = 0x0B \<or> c = 0x0C \<or> (0x0E \<le> c \<and> c \<le> 0x1F) \<or> c = 0x7F)"

text \<open>The class \<^verbatim>\<open>[<>\"'&\x00-\x08\x0B\x0C\x0E-\x1F\x7F]\<close> of \<^verbatim>\<open>sanitizeSearchQuery\<close>.\<close>

definition is_search_dangerous :: "code_unit \<Rightarrow> bool" where
  "is_search_dangerous c =
     (c = cu CHR ''<'' \<or> c = cu CHR ''>'' \<or> c = cu CHR 0x22 \<or> c = cu CHR 0x27
      \<or> c = cu CHR ''&'' \<or> is_control c)"

text \<open>The classes \<^verbatim>\<open>[\/\\]\<close> and \<^verbatim>\<open>[<>:"|?*\x00-\x1F]\<close> of \<^verbatim>\<open>sanitizeFileName\<close>.\<close>

definition is_path_separator :: "code_unit \<Rightarrow> bool" where
  "is_path_separator c = (c = cu CHR ''/'' \<or> c = cu CHR 0x5C)"

definition is_filename_dangerous :: "code_unit \<Rightarrow> bool" where
  "is_filename_dangerous c =
     (c = cu CHR ''<'' \<or> c = cu CHR ''>'' \<or> c = cu CHR '':'' \<or> c = cu CHR 0x22
      \<or> c = cu CHR ''|'' \<or> c = cu CHR ''?'' \<or> c = cu CHR ''*'' \<or> c \<le> 0x1F)"

text \<open>The class \<^verbatim>\<open>[<>"'`]\<close> of \<^verbatim>\<open>sanitizeUrl\<close>.\<close>

definition is_url_dangerous :: "code_unit \<Rightarrow> bool" where
  "is_url_dangerous c =
     (c = cu CHR ''<'' \<or> c = cu CHR ''>'' \<or> c = cu CHR 0x22 \<or> c = cu CHR 0x27
      \<or> c = cu CHR 0x60)"

text \<open>
  \<^verbatim>\<open>s.replace(/\.\./g, '')\<close>: matches are found left to right and do not overlap.
\<close>

fun remove_dotdot :: "jsstring \<Rightarrow> jsstring" where
  "remove_dotdot (a # b # s) =
     (if a = cu CHR ''.'' \<and> b = cu CHR ''.'' then remove_dotdot s
      else a # remove_dotdot (b # s))"
| "remove_dotdot s = s"

text \<open>\<^verbatim>\<open>s.replace(/\s+/g, '_')\<close>: each maximal run of whitespace becomes one underscore.\<close>

function replace_whitespace_runs :: "jsstring \<Rightarrow> jsstring" where
  "replace_whitespace_runs [] = []"
| "replace_whitespace_runs (c # s) =
     (if is_whitespace c then cu CHR ''_'' # replace_whitespace_runs (dropWhile is_whitespace s)
      else c # replace_whitespace_runs s)"
  by pat_completeness auto
termination
  by (relation "measure length") (auto simp: less_Suc_eq_le length_dropWhile_le)

text \<open>
  \<^verbatim>\<open>s.replace(/<[^>]*>/g, '')\<close>: a \<^verbatim>\<open><\<close> matches together with everything up to the next
  \<^verbatim>\<open>>\<close>; a \<^verbatim>\<open><\<close> with no \<^verbatim>\<open>>\<close> after it does not match and is kept.
\<close>

function strip_tags :: "jsstring \<Rightarrow> jsstring" where
  "strip_tags [] = []"
| "strip_tags (c # s) =
     (if c = cu CHR ''<'' \<and> cu CHR ''>'' \<in> set s
      then strip_tags (drop 1 (dropWhile (\<lambda>x. x \<noteq> cu CHR ''>'') s))
      else c # strip_tags s)"
  by pat_completeness auto
termination
  by (relation "measure length")
     (auto simp: less_Suc_eq_le intro: le_trans [OF diff_le_self length_dropWhile_le])

text \<open>\<^verbatim>\<open>/^(https?:\/\/|\/)/.test(s)\<close>.\<close>

definition urlPattern_test :: "jsstring \<Rightarrow> bool" where
  "urlPattern_test s =
     (prefix (js ''http://'') s \<or> prefix (js ''https://'') s \<or> prefix (js ''/'') s)"

text \<open>
  \<^verbatim>\<open>s.split(',')\<close>: the pieces between the separators; the empty string gives one
  empty piece.
\<close>

fun split :: "code_unit \<Rightarrow> jsstring \<Rightarrow> jsstring list" where
  "split sep [] = [[]]"
| "split sep (c # s) =
     (if c = sep then [] # split sep s
      else (case split sep s of
              [] \<Rightarrow> [[c]]
            | piece # pieces \<Rightarrow> (c # piece) # pieces))"

text \<open>
  \<^verbatim>\<open>Array.prototype.map\<close> with a callback that may throw: the elements are visited in
  order and the first exception ends the call.
\<close>

fun map_throwing :: "('a \<Rightarrow> js_error + 'b) \<Rightarrow> 'a list \<Rightarrow> js_error + 'b list" where
  "map_throwing f [] = Inr []"
| "map_throwing f (x # xs) =
     (case f x of
        Inl e \<Rightarrow> Inl e
      | Inr y \<Rightarrow> (case map_throwing f xs of Inl e \<Rightarrow> Inl e | Inr ys \<Rightarrow> Inr (y # ys)))"

text \<open>\<^verbatim>\<open>Array.prototype.join\<close>.\<close>

fun join :: "'a list \<Rightarrow> 'a list list \<Rightarrow> 'a list" where
  "join sep [] = []"
| "join sep [x] = x"
| "join sep (x # y # ys) = x @ sep @ join sep (y # ys)"

section \<open>The sanitizers\<close>

text \<open>
  \<^verbatim>\<open>createPurifyConfig()\<close> returns \<^verbatim>\<open>DOMPurify(window)\<close> in a browser and \<^verbatim>\<open>null\<close> on the
  server.  DOMPurify is a library outside the repository: \<open>purify\<close> is \<open>Some\<close> of its
  \<^verbatim>\<open>sanitize\<close> method with the options of the call, or \<open>None\<close>.
\<close>

definition sanitizeHtml ::
  "(jsstring \<Rightarrow> jsstring) option \<Rightarrow> js_value \<Rightarrow> js_error + jsstring" where
  "sanitizeHtml purify input =
     (if \<not> truthy input \<or> typeof input \<noteq> TyString then Inr []
      else case purify of
        Some purify_sanitize \<Rightarrow>
          (case input of JString s \<Rightarrow> Inr (purify_sanitize s) | _ \<Rightarrow> Inl TypeError)
      | None \<Rightarrow>
          (case input of JString s \<Rightarrow> Inr (strip_tags s) | _ \<Rightarrow> Inl TypeError))"

definition sanitizeText :: "js_value \<Rightarrow> js_error + jsstring" where
  "sanitizeText input =
     (if \<not> truthy input \<or> typeof input \<noteq> TyString then Inr []
      else case input of
        JString s \<Rightarrow>
          (let t = trim s;
               t = replace_class is_control [] t;
               t = replace_class (\<lambda>c. c = cu CHR ''&'') (js ''&amp;'') t;
               t = replace_class (\<lambda>c. c = cu CHR ''<'') (js ''&lt;'') t;
               t = replace_class (\<lambda>c. c = cu CHR ''>'') (js ''&gt;'') t;
               t = replace_class (\<lambda>c. c = cu CHR 0x22) (js ''&quot;'') t;
               t = replace_class (\<lambda>c. c = cu CHR 0x27) (js ''&#x27;'') t;
               t = replace_class (\<lambda>c. c = cu CHR ''/'') (js ''&#x2F;'') t
           in Inr (substring0 500 t))
      | _ \<Rightarrow> Inl TypeError)"

definition sanitizeSearchQuery :: "js_value \<Rightarrow> js_error + jsstring" where
  "sanitizeSearchQuery input =
     (if \<not> truthy input \<or> typeof input \<noteq> TyString then Inr []
      else case input of
        JString s \<Rightarrow>
          (let t = trim s;
               t = replace_class is_search_dangerous [] t
           in Inr (substring0 100 t))
      | _ \<Rightarrow> Inl TypeError)"

definition sanitizeFileName :: "js_value \<Rightarrow> js_error + jsstring" where
  "sanitizeFileName input =
     (if \<not> truthy input \<or> typeof input \<noteq> TyString then Inr []
      else case input of
        JString s \<Rightarrow>
          (let t = trim s;
               t = remove_dotdot t;
               t = replace_class is_path_separator [] t;
               t = replace_class is_filename_dangerous [] t;
               t = replace_whitespace_runs t
           in Inr (substring0 255 t))
      | _ \<Rightarrow> Inl TypeError)"

definition sanitizeTags :: "js_value \<Rightarrow> js_error + jsstring list" where
  "sanitizeTags input =
     (if \<not> truthy input \<or> typeof input \<noteq> TyString then Inr []
      else case input of
        JString s \<Rightarrow>
          (case map_throwing (\<lambda>tag. sanitizeText (JString tag)) (split (cu CHR '','') s) of
             Inl e \<Rightarrow> Inl e
           | Inr tags \<Rightarrow>
               Inr (take 20 (filter (\<lambda>tag. length tag > 0 \<and> length tag \<le> 50) tags)))
      | _ \<Rightarrow> Inl TypeError)"

definition sanitizeUrl :: "js_value \<Rightarrow> js_error + jsstring" where
  "sanitizeUrl input =
     (if \<not> truthy input \<or> typeof input \<noteq> TyString then Inr []
      else case input of
        JString s \<Rightarrow>
          (let sanitized = trim s in
           if \<not> urlPattern_test sanitized then Inr []
           else Inr (replace_class is_url_dangerous [] sanitized))
      | _ \<Rightarrow> Inl TypeError)"

section \<open>Validation schemas\<close>

text \<open>
  \<^verbatim>\<open>ValidationSchemas\<close> binds each field to a Zod string schema and a transform.  Only
  the transforms are modelled: the function Zod calls on the validated value, a string
  or, for an optional field, \<^verbatim>\<open>undefined\<close>.
\<close>

datatype schema =
    photoTitle
  | photoDescription
  | searchQuery
  | tags
  | fileName
  | galleryName
  | photographerName
  | copyrightNotice

definition returning_string :: "js_error + jsstring \<Rightarrow> js_error + js_value" where
  "returning_string r = (case r of Inl e \<Rightarrow> Inl e | Inr s \<Rightarrow> Inr (JString s))"

definition returning_array :: "js_error + jsstring list \<Rightarrow> js_error + js_value" where
  "returning_array r = (case r of Inl e \<Rightarrow> Inl e | Inr xs \<Rightarrow> Inr (JArray xs))"

fun transform :: "schema \<Rightarrow> js_value \<Rightarrow> js_error + js_value" where
  "transform photoTitle v = returning_string (sanitizeText v)"
| "transform photoDescription v =
     (if truthy v then returning_string (sanitizeText v) else Inr (JString []))"
| "transform searchQuery v =
     (if truthy v then returning_string (sanitizeSearchQuery v) else Inr (JString []))"
| "transform tags v =
     (if truthy v then returning_array (sanitizeTags v) else Inr (JArray []))"
| "transform fileName v = returning_string (sanitizeFileName v)"
| "transform galleryName v = returning_string (sanitizeText v)"
| "transform photographerName v = returning_string (sanitizeText v)"
| "transform copyrightNotice v =
     (if truthy v then returning_string (sanitizeText v) else Inr (JString []))"

section \<open>The Content-Security-Policy header\<close>

text \<open>
  \<^verbatim>\<open>CSP_DIRECTIVES\<close> is an object literal whose keys are not integer-like, so
  \<^verbatim>\<open>Object.entries\<close> lists them in the order they are written.  All its strings are
  ASCII literals and are kept as such.
\<close>

definition CSP_DIRECTIVES :: "(string \<times> string list) list" where
  "CSP_DIRECTIVES =
     [(''default-src'', [[CHR 0x27] @ ''self'' @ [CHR 0x27]]),
      (''script-src'',
         [[CHR 0x27] @ ''self'' @ [CHR 0x27],
          [CHR 0x27] @ ''unsafe-eval'' @ [CHR 0x27],
          [CHR 0x27] @ ''unsafe-inline'' @ [CHR 0x27],
          ''https://vercel.live'']),
      (''style-src'',
         [[CHR 0x27] @ ''self'' @ [CHR 0x27],
          [CHR 0x27] @ ''unsafe-inline'' @ [CHR 0x27],
          ''https://fonts.googleapis.com'']),
      (''font-src'',
         [[CHR 0x27] @ ''self'' @ [CHR 0x27],
          ''https://fonts.gstatic.com'',
          ''data:'']),
      (''img-src'',
         [[CHR 0x27] @ ''self'' @ [CHR 0x27],
          ''data:'',
          ''blob:'',
          ''https:'']),
      (''media-src'', [[CHR 0x27] @ ''self'' @ [CHR 0x27], ''blob:'', ''data:'']),
      (''object-src'', [[CHR 0x27] @ ''none'' @ [CHR 0x27]]),
      (''frame-src'', [[CHR 0x27] @ ''none'' @ [CHR 0x27]]),
      (''base-uri'', [[CHR 0x27] @ ''self'' @ [CHR 0x27]]),
      (''form-action'', [[CHR 0x27] @ ''self'' @ [CHR 0x27]]),
      (''frame-ancestors'', [[CHR 0x27] @ ''none'' @ [CHR 0x27]]),
      (''upgrade-insecure-requests'', [])]"

definition buildCSPHeader :: string where
  "buildCSPHeader =
     join ''; ''
       (map (\<lambda>(directive, sources).
               if length sources = 0 then directive
               else directive @ '' '' @ join '' '' sources)
          CSP_DIRECTIVES)"

text \<open>
  The number of occurrences of a pattern in a text: the positions of the text at which
  the pattern starts.
\<close>

fun occurrences :: "'a list \<Rightarrow> 'a list \<Rightarrow> nat" where
  "occurrences pat [] = (if pat = [] then 1 else 0)"
| "occurrences pat (c # s) = (if prefix pat (c # s) then 1 else 0) + occurrences pat s"

section \<open>The rate limiter\<close>

text \<open>
  \<^verbatim>\<open>class RateLimiter\<close> holds one private field, the map \<^verbatim>\<open>attempts\<close> from identifier to
  \<^verbatim>\<open>{ count, resetTime }\<close>.  Both fields and the parameters \<^verbatim>\<open>maxAttempts\<close> and
  \<^verbatim>\<open>windowMs\<close> are of type \<^verbatim>\<open>number\<close>: they are real numbers here, so that a limit such
  as 1.5 is a value of the model (the rounding of doubles beyond \<open>2^53\<close>, \<^verbatim>\<open>NaN\<close> and
  the infinities are not modelled).  \<^verbatim>\<open>Date.now()\<close> is the parameter \<open>now\<close>.  A method
  returns its result together with the updated object.
\<close>

record RateLimitEntry =
  count :: real
  resetTime :: real

record RateLimiter =
  attempts :: "jsstring \<rightharpoonup> RateLimitEntry"

definition new_RateLimiter :: RateLimiter where
  "new_RateLimiter = \<lparr>attempts = Map.empty\<rparr>"

definition isAllowed ::
  "real \<Rightarrow> RateLimiter \<Rightarrow> jsstring \<Rightarrow> real \<Rightarrow> real \<Rightarrow> bool \<times> RateLimiter" where
  "isAllowed now this identifier maxAttempts windowMs =
     (case attempts this identifier of
        None \<Rightarrow>
          (True, this\<lparr>attempts := (attempts this)
                   (identifier \<mapsto> \<lparr>count = 1, resetTime = now + windowMs\<rparr>)\<rparr>)
      | Some userAttempts \<Rightarrow>
          if now > resetTime userAttempts then
            (True, this\<lparr>attempts := (attempts this)
                     (identifier \<mapsto> \<lparr>count = 1, resetTime = now + windowMs\<rparr>)\<rparr>)
          else if count userAttempts \<ge> maxAttempts then (False, this)
          else
            (True, this\<lparr>attempts := (attempts this)
                     (identifier \<mapsto> userAttempts\<lparr>count := count userAttempts + 1\<rparr>)\<rparr>))"

text \<open>The defaults of the signature: \<^verbatim>\<open>maxAttempts = 10, windowMs = 60000\<close>.\<close>

definition isAllowed_default :: "real \<Rightarrow> RateLimiter \<Rightarrow> jsstring \<Rightarrow> bool \<times> RateLimiter" where
  "isAllowed_default now this identifier = isAllowed now this identifier 10 60000"

definition reset :: "RateLimiter \<Rightarrow> jsstring \<Rightarrow> RateLimiter" where
  "reset this identifier = this\<lparr>attempts := (attempts this)(identifier := None)\<rparr>"

text \<open>
  A client of one limiter object: a sequence of calls, each \<^verbatim>\<open>isAllowed\<close> at its own
  clock reading, all with the same \<open>maxAttempts\<close> and \<open>windowMs\<close>.
\<close>

datatype limiter_call = IsAllowed jsstring real | Reset jsstring

fun call :: "real \<Rightarrow> real \<Rightarrow> RateLimiter \<Rightarrow> limiter_call \<Rightarrow> RateLimiter" where
  "call maxAttempts windowMs this (IsAllowed identifier now) =
     snd (isAllowed now this identifier maxAttempts windowMs)"
| "call maxAttempts windowMs this (Reset identifier) = reset this identifier"

definition calls :: "real \<Rightarrow> real \<Rightarrow> limiter_call list \<Rightarrow> RateLimiter \<Rightarrow> RateLimiter" where
  "calls maxAttempts windowMs cs this = foldl (call maxAttempts windowMs) this cs"

text \<open>
  The invariant of the counts: every count is a whole number, at least 1 and less
  than \<open>maxAttempts + 1\<close>.
\<close>

definition counts_bounded :: "real \<Rightarrow> RateLimiter \<Rightarrow> bool" where
  "counts_bounded maxAttempts this =
     (\<forall>identifier e. attempts this identifier = Some e \<longrightarrow>
        count e \<in> \<int> \<and> 1 \<le> count e \<and> count e < maxAttempts + 1)"

section \<open>File upload validation\<close>

text \<open>
  The fields of a DOM \<^verbatim>\<open>File\<close> that \<^verbatim>\<open>validateFileUpload\<close> reads: \<^verbatim>\<open>size\<close> (a byte
  count), \<^verbatim>\<open>type\<close> and \<^verbatim>\<open>name\<close> (strings).  The locals \<^verbatim>\<open>errors\<close> and
  \<^verbatim>\<open>sanitizedName\<close> of the function are \<open>errs\<close> and \<open>sanitized\<close>, the fields of the
  returned object keep their names.
\<close>

record File =
  file_size :: nat
  file_type :: jsstring
  file_name :: jsstring

record FileValidation =
  isValid :: bool
  sanitizedName :: jsstring
  errors :: "jsstring list"

definition allowedTypes :: "jsstring list" where
  "allowedTypes =
     [js ''image/jpeg'', js ''image/jpg'', js ''image/png'', js ''image/gif'',
      js ''image/webp'']"

definition validateFileUpload :: "File \<Rightarrow> js_error + FileValidation" where
  "validateFileUpload file =
     (let errs = [];
          errs = (if file_size file > 10 * 1024 * 1024
                  then errs @ [js ''File size exceeds 10MB limit''] else errs);
          errs = (if file_type file \<notin> set allowedTypes
                  then errs @
                    [js ''Invalid file type. Only JPEG, PNG, GIF, and WebP are allowed'']
                  else errs)
      in case sanitizeFileName (JString (file_name file)) of
           Inl e \<Rightarrow> Inl e
         | Inr sanitized \<Rightarrow>
             (let errs = (if sanitized = []
                          then errs @ [js ''Invalid file name''] else errs)
              in Inr \<lparr>isValid = (length errs = 0),
                      sanitizedName = sanitized,
                      errors = errs\<rparr>))"

section \<open>What the escaping of \<^verbatim>\<open>sanitizeText\<close> leaves\<close>

text \<open>
  A code unit that can stand in the output of \<^verbatim>\<open>sanitizeText\<close>: not a control character
  of the removed class and none of the escaped characters other than the ampersand.
\<close>

definition escaped :: "code_unit \<Rightarrow> bool" where
  "escaped c =
     (\<not> is_control c \<and> c \<noteq> cu CHR ''<'' \<and> c \<noteq> cu CHR ''>'' \<and> c \<noteq> cu CHR 0x22
      \<and> c \<noteq> cu CHR 0x27 \<and> c \<noteq> cu CHR ''/'')"

section \<open>Properties of the sanitizers\<close>

lemmas class_defs = is_whitespace_def is_control_def is_search_dangerous_def
  is_path_separator_def is_filename_dangerous_def is_url_dangerous_def

lemmas string_defs = js_def cu_def trim_def replace_class_def substring0_def

lemma replace_class_remove: "replace_class cls [] s = filter (\<lambda>c. \<not> cls c) s"
  by (induction s) (simp_all add: replace_class_def)

lemma replace_class_unchanged: "\<forall>c\<in>set s. \<not> cls c \<Longrightarrow> replace_class cls r s = s"
  by (induction s) (simp_all add: replace_class_def)

lemma replace_class_all:
  assumes "\<forall>c\<in>set s. Q c" and "\<forall>c\<in>set r. Q c"
  shows "\<forall>c\<in>set (replace_class cls r s). Q c"
  using assms by (auto simp: replace_class_def split: if_splits)

lemma replace_class_excludes:
  assumes "\<forall>c\<in>set s. Q c" and "\<forall>c\<in>set r. Q c \<and> \<not> cls c"
  shows "\<forall>c\<in>set (replace_class cls r s). Q c \<and> \<not> cls c"
  using assms by (auto simp: replace_class_def split: if_splits)

lemma trim_unchanged:
  assumes "s = [] \<or> (\<not> is_whitespace (hd s) \<and> \<not> is_whitespace (last s))"
  shows "trim s = s"
proof (cases "s = []")
  case True
  then show ?thesis by (simp add: trim_def)
next
  case False
  with assms have "dropWhile is_whitespace s = s"
    by (simp add: dropWhile_eq_self_iff)
  moreover from False assms have "dropWhile is_whitespace (rev s) = rev s"
    by (simp add: dropWhile_eq_self_iff hd_rev)
  ultimately show ?thesis by (simp add: trim_def)
qed

lemma map_throwing_Inr: "map_throwing (\<lambda>x. Inr (f x)) xs = Inr (map f xs)"
  by (induction xs) simp_all

text \<open>On a string the guard only catches the empty one, which every step maps to itself.\<close>

lemma sanitizeText_string:
  "sanitizeText (JString s) = Inr
     (substring0 500
       (replace_class (\<lambda>c. c = cu CHR ''/'') (js ''&#x2F;'')
       (replace_class (\<lambda>c. c = cu CHR 0x27) (js ''&#x27;'')
       (replace_class (\<lambda>c. c = cu CHR 0x22) (js ''&quot;'')
       (replace_class (\<lambda>c. c = cu CHR ''>'') (js ''&gt;'')
       (replace_class (\<lambda>c. c = cu CHR ''<'') (js ''&lt;'')
       (replace_class (\<lambda>c. c = cu CHR ''&'') (js ''&amp;'')
       (replace_class is_control [] (trim s)))))))))"
  by (cases "s = []")
     (simp_all add: sanitizeText_def Let_def trim_def replace_class_def substring0_def)

lemma sanitizeFileName_string:
  "sanitizeFileName (JString s) = Inr
     (substring0 255 (replace_whitespace_runs
       (replace_class is_filename_dangerous []
       (replace_class is_path_separator [] (remove_dotdot (trim s))))))"
  by (cases "s = []")
     (simp_all add: sanitizeFileName_def Let_def trim_def replace_class_def substring0_def)

text \<open>No sanitizer throws, whatever it is given.\<close>

lemma sanitizers_return:
  "\<exists>r. sanitizeHtml purify v = Inr r" "\<exists>r. sanitizeText v = Inr r"
  "\<exists>r. sanitizeSearchQuery v = Inr r" "\<exists>r. sanitizeFileName v = Inr r"
  "\<exists>r. sanitizeUrl v = Inr r"
  by (cases v; cases purify;
      simp add: sanitizeHtml_def sanitizeText_def sanitizeSearchQuery_def
        sanitizeFileName_def sanitizeUrl_def Let_def)+

text \<open>
  C3.  For \<^verbatim>\<open>null\<close>, \<^verbatim>\<open>undefined\<close> and every other value that is not a string, each of
  the six sanitizers returns its empty value (the empty string, the empty list for
  \<^verbatim>\<open>sanitizeTags\<close>), and returns it normally: the result is never a thrown error.
  For \<^verbatim>\<open>sanitizeHtml\<close> this holds with and without DOMPurify.
\<close>

theorem sanitizers_empty_on_non_strings:
  assumes "v = JNull \<or> v = JUndefined \<or> typeof v \<noteq> TyString"
  shows "sanitizeHtml purify v = Inr [] \<and> sanitizeText v = Inr []
     \<and> sanitizeSearchQuery v = Inr [] \<and> sanitizeFileName v = Inr []
     \<and> sanitizeTags v = Inr [] \<and> sanitizeUrl v = Inr []"
proof -
  from assms have "typeof v \<noteq> TyString"
    by auto
  then show ?thesis
    by (simp add: sanitizeHtml_def sanitizeText_def sanitizeSearchQuery_def
        sanitizeFileName_def sanitizeTags_def sanitizeUrl_def)
qed

theorem sanitizers_empty_on_non_strings_witness:
  "sanitizeHtml None JNull = Inr [] \<and> sanitizeText JNull = Inr []
   \<and> sanitizeSearchQuery JNull = Inr [] \<and> sanitizeFileName JNull = Inr []
   \<and> sanitizeTags JNull = Inr [] \<and> sanitizeUrl JNull = Inr []
   \<and> sanitizeHtml (Some (\<lambda>s. s)) JUndefined = Inr [] \<and> sanitizeText JUndefined = Inr []
   \<and> sanitizeSearchQuery JUndefined = Inr [] \<and> sanitizeFileName JUndefined = Inr []
   \<and> sanitizeTags JUndefined = Inr [] \<and> sanitizeUrl JUndefined = Inr []
   \<and> typeof (JNumber 42) \<noteq> TyString
   \<and> sanitizeHtml None (JNumber 42) = Inr [] \<and> sanitizeText (JNumber 42) = Inr []
   \<and> sanitizeSearchQuery (JNumber 42) = Inr [] \<and> sanitizeFileName (JNumber 42) = Inr []
   \<and> sanitizeTags (JNumber 42) = Inr [] \<and> sanitizeUrl (JNumber 42) = Inr []"
  using sanitizers_empty_on_non_strings [of JNull None]
        sanitizers_empty_on_non_strings [of JUndefined "Some (\<lambda>s. s)"]
        sanitizers_empty_on_non_strings [of "JNumber 42" None]
  by simp

text \<open>
  C7.  \<^verbatim>\<open>sanitizeUrl\<close> returns the empty string when the trimmed input does not start
  with \<^verbatim>\<open>http://\<close>, \<^verbatim>\<open>https://\<close> or \<^verbatim>\<open>/\<close>; otherwise it returns the trimmed input
  without the characters \<^verbatim>\<open>< > " '\<close> and backtick.  The three examples of the
  specification evaluate as it says.
\<close>

theorem sanitizeUrl_allow_list:
  "(\<not> (prefix (js ''http://'') (trim s) \<or> prefix (js ''https://'') (trim s)
        \<or> prefix (js ''/'') (trim s)) \<longrightarrow>
      sanitizeUrl (JString s) = Inr [])
   \<and> (prefix (js ''http://'') (trim s) \<or> prefix (js ''https://'') (trim s)
        \<or> prefix (js ''/'') (trim s) \<longrightarrow>
      sanitizeUrl (JString s) =
        Inr (filter (\<lambda>c. c \<notin> {cu CHR ''<'', cu CHR ''>'', cu CHR 0x22, cu CHR 0x27, cu CHR 0x60})
               (trim s)))
   \<and> sanitizeUrl (JString (js ''javascript:alert(1)'')) = Inr []
   \<and> sanitizeUrl (JString (js ''/gallery/42'')) = Inr (js ''/gallery/42'')
   \<and> sanitizeUrl (JString (js (''https://example.com/x'' @ [CHR 0x22] @ ''y'')))
       = Inr (js ''https://example.com/xy'')"
proof (intro conjI impI)
  assume "\<not> (prefix (js ''http://'') (trim s) \<or> prefix (js ''https://'') (trim s)
        \<or> prefix (js ''/'') (trim s))"
  then show "sanitizeUrl (JString s) = Inr []"
    by (simp add: sanitizeUrl_def urlPattern_test_def)
next
  assume ok: "prefix (js ''http://'') (trim s) \<or> prefix (js ''https://'') (trim s)
        \<or> prefix (js ''/'') (trim s)"
  then have "s \<noteq> []"
    by (auto simp: trim_def js_def)
  moreover from ok have "urlPattern_test (trim s)"
    by (simp add: urlPattern_test_def)
  ultimately have "sanitizeUrl (JString s) = Inr (replace_class is_url_dangerous [] (trim s))"
    by (simp add: sanitizeUrl_def Let_def)
  also have "replace_class is_url_dangerous [] (trim s) =
      filter (\<lambda>c. c \<notin> {cu CHR ''<'', cu CHR ''>'', cu CHR 0x22, cu CHR 0x27, cu CHR 0x60})
        (trim s)"
    by (simp add: replace_class_remove is_url_dangerous_def)
  finally show "sanitizeUrl (JString s) =
        Inr (filter (\<lambda>c. c \<notin> {cu CHR ''<'', cu CHR ''>'', cu CHR 0x22, cu CHR 0x27, cu CHR 0x60})
               (trim s))" .
next
  show "sanitizeUrl (JString (js ''javascript:alert(1)'')) = Inr []"
    by (simp add: sanitizeUrl_def urlPattern_test_def string_defs class_defs)
  show "sanitizeUrl (JString (js ''/gallery/42'')) = Inr (js ''/gallery/42'')"
    by (simp add: sanitizeUrl_def urlPattern_test_def string_defs class_defs)
  show "sanitizeUrl (JString (js (''https://example.com/x'' @ [CHR 0x22] @ ''y'')))
       = Inr (js ''https://example.com/xy'')"
    by (simp add: sanitizeUrl_def urlPattern_test_def string_defs class_defs)
qed

theorem sanitizeUrl_allow_list_witness:
  "\<not> (prefix (js ''http://'') (trim (js '' ftp://host/ ''))
        \<or> prefix (js ''https://'') (trim (js '' ftp://host/ ''))
        \<or> prefix (js ''/'') (trim (js '' ftp://host/ '')))
   \<and> sanitizeUrl (JString (js '' ftp://host/ '')) = Inr []
   \<and> prefix (js ''/'') (trim (js '' /a<b>`c '' ))
   \<and> sanitizeUrl (JString (js '' /a<b>`c '')) = Inr (js ''/abc'')"
  using sanitizeUrl_allow_list [of "js '' ftp://host/ ''"]
        sanitizeUrl_allow_list [of "js '' /a<b>`c ''"]
  by (simp add: string_defs class_defs)

text \<open>
  C8.  For every input string \<^verbatim>\<open>sanitizeTags\<close> returns the first 20, in their order,
  of the sanitized comma-separated parts that are neither empty nor longer than 50
  code units; \<^verbatim>\<open>sanitizeText\<close> never throws on a part.  Nothing removes repeated tags:
  \<^verbatim>\<open>"a,b,b,c"\<close> gives \<^verbatim>\<open>["a", "b", "b", "c"]\<close>.
\<close>

theorem sanitizeTags_keeps_first_twenty_valid:
  "sanitizeTags (JString s) =
     Inr (take 20 (filter (\<lambda>tag. 0 < length tag \<and> length tag \<le> 50)
            (map (\<lambda>part. projr (sanitizeText (JString part))) (split (cu CHR '','') s))))
   \<and> (\<forall>part. \<exists>r. sanitizeText (JString part) = Inr r)
   \<and> sanitizeTags (JString (js ''a,b,b,c'')) = Inr [js ''a'', js ''b'', js ''b'', js ''c'']"
proof (intro conjI allI)
  have st: "(\<lambda>tag. sanitizeText (JString tag)) =
      (\<lambda>tag. Inr (projr (sanitizeText (JString tag))))"
    by (simp add: sanitizeText_string)
  show "sanitizeTags (JString s) =
     Inr (take 20 (filter (\<lambda>tag. 0 < length tag \<and> length tag \<le> 50)
            (map (\<lambda>part. projr (sanitizeText (JString part))) (split (cu CHR '','') s))))"
  proof (cases "s = []")
    case True
    then show ?thesis
      by (simp add: sanitizeTags_def sanitizeText_def)
  next
    case False
    then show ?thesis
      by (simp add: sanitizeTags_def) (subst st, simp add: map_throwing_Inr)
  qed
  show "\<exists>r. sanitizeText (JString part) = Inr r" for part
    by (simp add: sanitizeText_string)
  show "sanitizeTags (JString (js ''a,b,b,c'')) = Inr [js ''a'', js ''b'', js ''b'', js ''c'']"
    by (simp add: sanitizeTags_def sanitizeText_def Let_def string_defs class_defs)
qed

theorem sanitizeTags_keeps_first_twenty_valid_witness:
  "sanitizeTags (JString (js '' x ,,<,x''))
     = Inr (take 20 (filter (\<lambda>tag. 0 < length tag \<and> length tag \<le> 50)
              [js ''x'', [], js ''&lt;'', js ''x'']))
   \<and> sanitizeTags (JString (js '' x ,,<,x'')) = Inr [js ''x'', js ''&lt;'', js ''x'']"
  using sanitizeTags_keeps_first_twenty_valid [of "js '' x ,,<,x''"]
  by (simp add: sanitizeText_def Let_def string_defs class_defs)

subsection \<open>File names\<close>

lemma set_replace_whitespace_runs:
  "set (replace_whitespace_runs s) \<subseteq> insert (cu CHR ''_'') (set s)"
proof (induction s rule: replace_whitespace_runs.induct)
  case 1
  then show ?case by simp
next
  case (2 c s)
  show ?case
  proof (cases "is_whitespace c")
    case True
    with 2 have "set (replace_whitespace_runs (dropWhile is_whitespace s))
        \<subseteq> insert (cu CHR ''_'') (set (dropWhile is_whitespace s))"
      by simp
    also have "\<dots> \<subseteq> insert (cu CHR ''_'') (set s)"
      using set_dropWhileD by fastforce
    finally show ?thesis using True by auto
  next
    case False
    with 2 show ?thesis by auto
  qed
qed

text \<open>The part of C4 that holds: no output of \<^verbatim>\<open>sanitizeFileName\<close> has a path separator.\<close>

lemma sanitizeFileName_no_separator:
  assumes "sanitizeFileName (JString s) = Inr r"
  shows "\<forall>c\<in>set r. \<not> is_path_separator c"
proof
  fix c assume "c \<in> set r"
  then have "c \<in> set (replace_whitespace_runs
       (replace_class is_filename_dangerous []
       (replace_class is_path_separator [] (remove_dotdot (trim s)))))"
    using assms by (auto simp: sanitizeFileName_string substring0_def dest: in_set_takeD)
  then have "c = cu CHR ''_'' \<or> c \<in> set (replace_class is_filename_dangerous []
       (replace_class is_path_separator [] (remove_dotdot (trim s))))"
    using set_replace_whitespace_runs by blast
  then show "\<not> is_path_separator c"
  proof
    assume "c = cu CHR ''_''"
    then show ?thesis by (simp add: is_path_separator_def cu_def)
  next
    assume "c \<in> set (replace_class is_filename_dangerous []
       (replace_class is_path_separator [] (remove_dotdot (trim s))))"
    then show ?thesis by (simp add: replace_class_remove)
  qed
qed

lemma sanitizeFileName_etc_passwd:
  "sanitizeFileName (JString (js ''../../etc/passwd'')) = Inr (js ''etcpasswd'')"
  by (simp add: sanitizeFileName_def Let_def string_defs class_defs)

text \<open>
  C4.  The output of \<^verbatim>\<open>sanitizeFileName\<close> is meant to contain no \<^verbatim>\<open>..\<close>, but the pass
  that removes \<^verbatim>\<open>..\<close> runs before the passes that remove path separators and illegal
  characters, so two dots that such a character separates come together afterwards:
  the file name \<^verbatim>\<open>./.\<close> is sanitized to \<^verbatim>\<open>..\<close>.
\<close>

theorem sanitizeFileName_keeps_dotdot:
  "sanitizeFileName (JString (js ''./.'')) = Inr (js ''..'')"
  by (simp add: sanitizeFileName_def Let_def string_defs class_defs)

theorem sanitizeFileName_keeps_dotdot_witness:
  "sublist (js ''..'') (projr (sanitizeFileName (JString (js ''./.''))))
   \<and> projr (sanitizeFileName (JString (js ''.:.''))) = js ''..''"
  using sanitizeFileName_keeps_dotdot
  by (simp add: sanitizeFileName_def Let_def string_defs class_defs)

subsection \<open>Reapplying a sanitizer to its own output\<close>

lemma sanitizeText_escaped:
  assumes "sanitizeText (JString s) = Inr t"
  shows "\<forall>c\<in>set t. escaped c"
proof -
  define t1 where "t1 = replace_class is_control [] (trim s)"
  define t2 where "t2 = replace_class (\<lambda>c. c = cu CHR ''&'') (js ''&amp;'') t1"
  define t3 where "t3 = replace_class (\<lambda>c. c = cu CHR ''<'') (js ''&lt;'') t2"
  define t4 where "t4 = replace_class (\<lambda>c. c = cu CHR ''>'') (js ''&gt;'') t3"
  define t5 where "t5 = replace_class (\<lambda>c. c = cu CHR 0x22) (js ''&quot;'') t4"
  define t6 where "t6 = replace_class (\<lambda>c. c = cu CHR 0x27) (js ''&#x27;'') t5"
  define t7 where "t7 = replace_class (\<lambda>c. c = cu CHR ''/'') (js ''&#x2F;'') t6"
  have t: "t = take 500 t7"
    using assms
    by (simp add: sanitizeText_string substring0_def t1_def t2_def t3_def t4_def t5_def
        t6_def t7_def)
  have 1: "\<forall>c\<in>set t1. \<not> is_control c"
    by (simp add: t1_def replace_class_remove)
  have 2: "\<forall>c\<in>set t2. \<not> is_control c"
    unfolding t2_def
    by (rule replace_class_all [OF 1]) (simp add: js_def cu_def is_control_def)
  have 3: "\<forall>c\<in>set t3. \<not> is_control c \<and> \<not> c = cu CHR ''<''"
    unfolding t3_def
    by (rule replace_class_excludes [OF 2]) (simp add: js_def cu_def is_control_def)
  have 4: "\<forall>c\<in>set t4. (\<not> is_control c \<and> \<not> c = cu CHR ''<'') \<and> \<not> c = cu CHR ''>''"
    unfolding t4_def
    by (rule replace_class_excludes [OF 3]) (simp add: js_def cu_def is_control_def)
  have 5: "\<forall>c\<in>set t5. ((\<not> is_control c \<and> \<not> c = cu CHR ''<'') \<and> \<not> c = cu CHR ''>'')
      \<and> \<not> c = cu CHR 0x22"
    unfolding t5_def
    by (rule replace_class_excludes [OF 4]) (simp add: js_def cu_def is_control_def)
  have 6: "\<forall>c\<in>set t6. (((\<not> is_control c \<and> \<not> c = cu CHR ''<'') \<and> \<not> c = cu CHR ''>'')
      \<and> \<not> c = cu CHR 0x22) \<and> \<not> c = cu CHR 0x27"
    unfolding t6_def
    by (rule replace_class_excludes [OF 5]) (simp add: js_def cu_def is_control_def)
  have 7: "\<forall>c\<in>set t7. ((((\<not> is_control c \<and> \<not> c = cu CHR ''<'') \<and> \<not> c = cu CHR ''>'')
      \<and> \<not> c = cu CHR 0x22) \<and> \<not> c = cu CHR 0x27) \<and> \<not> c = cu CHR ''/''"
    unfolding t7_def
    by (rule replace_class_excludes [OF 6]) (simp add: js_def cu_def is_control_def)
  show ?thesis
  proof
    fix c assume "c \<in> set t"
    then have "c \<in> set t7" unfolding t by (rule in_set_takeD)
    with 7 show "escaped c" by (simp add: escaped_def)
  qed
qed

lemma sanitizeText_length: "sanitizeText (JString s) = Inr t \<Longrightarrow> length t \<le> 500"
  by (auto simp: sanitizeText_string substring0_def)

lemma sanitizeText_fixed_point:
  assumes "sanitizeText (JString s) = Inr t"
    and "cu CHR ''&'' \<notin> set t"
    and "t = [] \<or> (\<not> is_whitespace (hd t) \<and> \<not> is_whitespace (last t))"
  shows "sanitizeText (JString t) = Inr t"
proof -
  have esc: "\<forall>c\<in>set t. escaped c"
    using assms(1) by (rule sanitizeText_escaped)
  have len: "length t \<le> 500"
    using assms(1) by (rule sanitizeText_length)
  have "trim t = t"
    using assms(3) by (rule trim_unchanged)
  moreover have "replace_class is_control [] t = t"
    using esc by (simp add: replace_class_unchanged escaped_def)
  moreover have "replace_class (\<lambda>c. c = cu CHR ''&'') (js ''&amp;'') t = t"
    using assms(2) by (auto intro: replace_class_unchanged)
  moreover have "replace_class (\<lambda>c. c = cu CHR ''<'') (js ''&lt;'') t = t"
    "replace_class (\<lambda>c. c = cu CHR ''>'') (js ''&gt;'') t = t"
    "replace_class (\<lambda>c. c = cu CHR 0x22) (js ''&quot;'') t = t"
    "replace_class (\<lambda>c. c = cu CHR 0x27) (js ''&#x27;'') t = t"
    "replace_class (\<lambda>c. c = cu CHR ''/'') (js ''&#x2F;'') t = t"
    using esc by (simp_all add: replace_class_unchanged escaped_def)
  ultimately show ?thesis
    using len by (simp add: sanitizeText_string substring0_def)
qed

lemma transform_sanitizeText:
  assumes "sch \<in> {photoTitle, photoDescription, galleryName, photographerName,
                    copyrightNotice}"
  shows "transform sch (JString x) = returning_string (sanitizeText (JString x))"
  using assms by (auto simp: sanitizeText_def returning_string_def)

lemma sanitizeSearchQuery_string:
  "sanitizeSearchQuery (JString s) =
     Inr (substring0 100 (replace_class is_search_dangerous [] (trim s)))"
  by (cases "s = []")
     (simp_all add: sanitizeSearchQuery_def Let_def trim_def replace_class_def substring0_def)

lemma sanitizeSearchQuery_fixed_point:
  assumes "sanitizeSearchQuery (JString s) = Inr t"
    and "t = [] \<or> (\<not> is_whitespace (hd t) \<and> \<not> is_whitespace (last t))"
  shows "sanitizeSearchQuery (JString t) = Inr t"
proof -
  have t: "t = take 100 (filter (\<lambda>c. \<not> is_search_dangerous c) (trim s))"
    using assms(1) by (simp add: sanitizeSearchQuery_string substring0_def replace_class_remove)
  have "\<forall>c\<in>set t. \<not> is_search_dangerous c"
    unfolding t by (auto dest: in_set_takeD)
  then have "replace_class is_search_dangerous [] t = t"
    by (rule replace_class_unchanged)
  moreover have "length t \<le> 100"
    unfolding t by simp
  moreover have "trim t = t"
    using assms(2) by (rule trim_unchanged)
  ultimately show ?thesis
    by (simp add: sanitizeSearchQuery_string substring0_def)
qed

lemma remove_dotdot_unchanged:
  "\<not> sublist [cu CHR ''.'', cu CHR ''.''] s \<Longrightarrow> remove_dotdot s = s"
proof (induction s rule: remove_dotdot.induct)
  case (1 a b s)
  have "\<not> (a = cu CHR ''.'' \<and> b = cu CHR ''.'')"
  proof
    assume "a = cu CHR ''.'' \<and> b = cu CHR ''.''"
    then have "prefix [cu CHR ''.'', cu CHR ''.''] (a # b # s)"
      by simp
    then have "sublist [cu CHR ''.'', cu CHR ''.''] (a # b # s)"
      by (rule prefix_imp_sublist)
    with 1 show False by simp
  qed
  moreover have "\<not> sublist [cu CHR ''.'', cu CHR ''.''] (b # s)"
    using 1(3) by (auto simp: sublist_Cons_right)
  ultimately show ?case
    using 1 by auto
qed simp_all

lemma replace_whitespace_runs_unchanged:
  "\<forall>c\<in>set s. \<not> is_whitespace c \<Longrightarrow> replace_whitespace_runs s = s"
  by (induction s) simp_all

lemma replace_whitespace_runs_all:
  assumes "\<forall>c\<in>set s. \<not> is_whitespace c \<longrightarrow> Q c" and "Q (cu CHR ''_'')"
  shows "\<forall>c\<in>set (replace_whitespace_runs s). Q c"
  using assms
proof (induction s rule: replace_whitespace_runs.induct)
  case 1
  then show ?case by simp
next
  case (2 c s)
  show ?case
  proof (cases "is_whitespace c")
    case True
    have "\<forall>x\<in>set (dropWhile is_whitespace s). \<not> is_whitespace x \<longrightarrow> Q x"
      using 2(3) by (auto dest: set_dropWhileD)
    with 2(1) [OF True _ 2(4)] True 2(4) show ?thesis
      by simp
  next
    case False
    with 2(2) [OF False _ 2(4)] 2(3) show ?thesis
      by simp
  qed
qed

text \<open>
  An output of \<^verbatim>\<open>sanitizeFileName\<close> has no whitespace at all, no illegal character and
  no path separator.
\<close>

lemma sanitizeFileName_clean:
  assumes "sanitizeFileName (JString s) = Inr t"
  shows "\<forall>c\<in>set t. \<not> is_whitespace c \<and> \<not> is_filename_dangerous c \<and> \<not> is_path_separator c"
proof -
  define u where "u = replace_class is_filename_dangerous []
       (replace_class is_path_separator [] (remove_dotdot (trim s)))"
  have t: "t = take 255 (replace_whitespace_runs u)"
    using assms by (simp add: sanitizeFileName_string substring0_def u_def)
  have "\<forall>c\<in>set u. \<not> is_whitespace c \<longrightarrow>
      \<not> is_whitespace c \<and> \<not> is_filename_dangerous c \<and> \<not> is_path_separator c"
    by (simp add: u_def replace_class_remove)
  moreover have "\<not> is_whitespace (cu CHR ''_'') \<and> \<not> is_filename_dangerous (cu CHR ''_'')
      \<and> \<not> is_path_separator (cu CHR ''_'')"
    by (simp add: cu_def class_defs)
  ultimately have "\<forall>c\<in>set (replace_whitespace_runs u).
      \<not> is_whitespace c \<and> \<not> is_filename_dangerous c \<and> \<not> is_path_separator c"
    by (rule replace_whitespace_runs_all)
  then show ?thesis
    unfolding t by (auto dest: in_set_takeD)
qed

lemma sanitizeFileName_fixed_point:
  assumes "sanitizeFileName (JString s) = Inr t"
    and "\<not> sublist (js ''..'') t"
  shows "sanitizeFileName (JString t) = Inr t"
proof -
  have clean: "\<forall>c\<in>set t. \<not> is_whitespace c \<and> \<not> is_filename_dangerous c
      \<and> \<not> is_path_separator c"
    using assms(1) by (rule sanitizeFileName_clean)
  have len: "length t \<le> 255"
    using assms(1) by (auto simp: sanitizeFileName_string substring0_def)
  have "t = [] \<or> (\<not> is_whitespace (hd t) \<and> \<not> is_whitespace (last t))"
    using clean by (cases "t = []") simp_all
  then have "trim t = t"
    by (rule trim_unchanged)
  moreover have "remove_dotdot t = t"
    using assms(2) by (simp add: remove_dotdot_unchanged js_def cu_def)
  moreover have "replace_class is_path_separator [] t = t"
    "replace_class is_filename_dangerous [] t = t"
    using clean by (simp_all add: replace_class_unchanged)
  moreover have "replace_whitespace_runs t = t"
    using clean by (simp add: replace_whitespace_runs_unchanged)
  ultimately show ?thesis
    using len by (simp add: sanitizeFileName_string substring0_def)
qed

text \<open>
  The \<^verbatim>\<open>tags\<close> transform returns an array for every input, and an array is not a
  string: the guard of \<^verbatim>\<open>sanitizeTags\<close> maps it to the empty array.
\<close>

lemma transform_tags_of_array: "transform tags (JArray xs) = Inr (JArray [])"
  by (simp add: sanitizeTags_def returning_array_def)

lemma sanitizeTags_returns: "\<exists>r. sanitizeTags v = Inr r"
proof (cases "truthy v \<and> typeof v = TyString")
  case True
  then obtain s where v: "v = JString s" and s: "s \<noteq> []"
    by (cases v) simp_all
  have "(\<lambda>tag. sanitizeText (JString tag)) =
      (\<lambda>tag. Inr (projr (sanitizeText (JString tag))))"
    by (simp add: sanitizeText_string)
  then have "\<exists>r. map_throwing (\<lambda>tag. sanitizeText (JString tag)) (split (cu CHR '','') s)
      = Inr r"
    by (metis map_throwing_Inr)
  with v s show ?thesis
    by (auto simp: sanitizeTags_def)
next
  case False
  then show ?thesis
    by (auto simp: sanitizeTags_def)
qed

lemma transform_tags_returns_array: "\<exists>xs. transform tags v = Inr (JArray xs)"
  using sanitizeTags_returns [of v]
  by (auto simp: returning_array_def)

text \<open>
  C1, as stated, fails.  \<^verbatim>\<open>sanitizeText("&")\<close> is \<^verbatim>\<open>"&amp;"\<close>, five code units, and
  \<^verbatim>\<open>sanitizeText("&amp;")\<close> is \<^verbatim>\<open>"&amp;amp;"\<close>; the same for the \<^verbatim>\<open>photoTitle\<close> transform.
  It fails without any escaping too: in \<^verbatim>\<open>"\x00 a"\<close> the removed control character
  uncovers a space, so the sanitized form is \<^verbatim>\<open>" a"\<close>, whose sanitized form is \<^verbatim>\<open>"a"\<close>,
  for \<^verbatim>\<open>sanitizeText\<close> and for \<^verbatim>\<open>sanitizeSearchQuery\<close>.  \<^verbatim>\<open>sanitizeFileName\<close> maps
  \<^verbatim>\<open>"./."\<close> to \<^verbatim>\<open>".."\<close> and that to the empty string.  The \<^verbatim>\<open>tags\<close> transform maps
  \<^verbatim>\<open>"a"\<close> to \<^verbatim>\<open>["a"]\<close> and that to \<^verbatim>\<open>[]\<close>.
\<close>

theorem sanitizeText_not_idempotent:
  "length (js ''&'') < 500
   \<and> sanitizeText (JString (js ''&'')) = Inr (js ''&amp;'')
   \<and> length (js ''&amp;'') < 500
   \<and> sanitizeText (JString (js ''&amp;'')) = Inr (js ''&amp;amp;'')
   \<and> js ''&amp;amp;'' \<noteq> js ''&amp;''
   \<and> transform photoTitle (JString (js ''&'')) = Inr (JString (js ''&amp;''))
   \<and> transform photoTitle (JString (js ''&amp;'')) = Inr (JString (js ''&amp;amp;''))
   \<and> sanitizeText (JString [0x00, 0x20, 0x61]) = Inr [0x20, 0x61]
   \<and> sanitizeText (JString [0x20, 0x61]) = Inr [0x61]
   \<and> transform searchQuery (JString [0x00, 0x20, 0x61]) = Inr (JString [0x20, 0x61])
   \<and> transform searchQuery (JString [0x20, 0x61]) = Inr (JString [0x61])
   \<and> transform fileName (JString (js ''./.'')) = Inr (JString (js ''..''))
   \<and> transform fileName (JString (js ''..'')) = Inr (JString [])
   \<and> transform tags (JString (js ''a'')) = Inr (JArray [js ''a''])
   \<and> transform tags (JArray [js ''a'']) = Inr (JArray [])"
  by (simp add: sanitizeText_def sanitizeSearchQuery_def sanitizeFileName_def
      sanitizeTags_def returning_string_def returning_array_def Let_def
      string_defs class_defs)

text \<open>
  C1, amended.  Reapplied to its own output, a sanitizer returns that output under a
  side condition on the output \<open>t\<close>, for every input string \<open>s\<close>:
  \<^item> \<^verbatim>\<open>sanitizeText\<close>, and the transforms of \<^verbatim>\<open>photoTitle\<close>, \<^verbatim>\<open>photoDescription\<close>,
    \<^verbatim>\<open>galleryName\<close>, \<^verbatim>\<open>photographerName\<close> and \<^verbatim>\<open>copyrightNotice\<close>, when \<open>t\<close> contains
    no ampersand (nothing was escaped) and neither starts nor ends with whitespace;
    \<open>t\<close> may be as long as the cap;
  \<^item> \<^verbatim>\<open>sanitizeSearchQuery\<close> and the transform of \<^verbatim>\<open>searchQuery\<close>, when \<open>t\<close> neither
    starts nor ends with whitespace;
  \<^item> \<^verbatim>\<open>sanitizeFileName\<close> and the transform of \<^verbatim>\<open>fileName\<close>, when \<open>t\<close> contains no
    \<^verbatim>\<open>..\<close>;
  \<^item> the transforms of the optional string fields map \<^verbatim>\<open>undefined\<close> to the empty
    string, and the empty string to itself;
  \<^item> the transform of \<^verbatim>\<open>tags\<close> returns an array for every input, maps that array to
    the empty array, and so returns its own output again exactly when that output is
    empty.
\<close>

theorem transforms_idempotent_on_clean_output:
  "(sanitizeText (JString s) = Inr t \<and> cu CHR ''&'' \<notin> set t
      \<and> (t = [] \<or> (\<not> is_whitespace (hd t) \<and> \<not> is_whitespace (last t))) \<longrightarrow>
      sanitizeText (JString t) = Inr t
      \<and> (\<forall>sch\<in>{photoTitle, photoDescription, galleryName, photographerName,
                  copyrightNotice}.
            transform sch (JString s) = Inr (JString t)
            \<and> transform sch (JString t) = Inr (JString t)))
   \<and> (sanitizeSearchQuery (JString s) = Inr t
      \<and> (t = [] \<or> (\<not> is_whitespace (hd t) \<and> \<not> is_whitespace (last t))) \<longrightarrow>
      sanitizeSearchQuery (JString t) = Inr t
      \<and> transform searchQuery (JString s) = Inr (JString t)
      \<and> transform searchQuery (JString t) = Inr (JString t))
   \<and> (sanitizeFileName (JString s) = Inr t \<and> \<not> sublist (js ''..'') t \<longrightarrow>
      sanitizeFileName (JString t) = Inr t
      \<and> transform fileName (JString s) = Inr (JString t)
      \<and> transform fileName (JString t) = Inr (JString t))
   \<and> (\<forall>sch\<in>{photoDescription, searchQuery, copyrightNotice}.
        transform sch JUndefined = Inr (JString [])
        \<and> transform sch (JString []) = Inr (JString []))
   \<and> (\<exists>xs. transform tags v = Inr (JArray xs)
        \<and> transform tags (JArray xs) = Inr (JArray [])
        \<and> (transform tags (JArray xs) = transform tags v) = (xs = []))"
proof (intro conjI impI)
  assume a: "sanitizeText (JString s) = Inr t \<and> cu CHR ''&'' \<notin> set t
      \<and> (t = [] \<or> (\<not> is_whitespace (hd t) \<and> \<not> is_whitespace (last t)))"
  then have again: "sanitizeText (JString t) = Inr t"
    by (auto intro: sanitizeText_fixed_point)
  then show "sanitizeText (JString t) = Inr t" .
  show "\<forall>sch\<in>{photoTitle, photoDescription, galleryName, photographerName,
                  copyrightNotice}.
            transform sch (JString s) = Inr (JString t)
            \<and> transform sch (JString t) = Inr (JString t)"
  proof
    fix sch
    assume "sch \<in> {photoTitle, photoDescription, galleryName, photographerName,
                      copyrightNotice}"
    then have "transform sch (JString s) = returning_string (sanitizeText (JString s))"
      "transform sch (JString t) = returning_string (sanitizeText (JString t))"
      by (rule transform_sanitizeText)+
    with a again show "transform sch (JString s) = Inr (JString t)
            \<and> transform sch (JString t) = Inr (JString t)"
      by (simp add: returning_string_def)
  qed
next
  assume a: "sanitizeSearchQuery (JString s) = Inr t
      \<and> (t = [] \<or> (\<not> is_whitespace (hd t) \<and> \<not> is_whitespace (last t)))"
  then have again: "sanitizeSearchQuery (JString t) = Inr t"
    by (auto intro: sanitizeSearchQuery_fixed_point)
  then show "sanitizeSearchQuery (JString t) = Inr t" .
  from a show "transform searchQuery (JString s) = Inr (JString t)"
    by (auto simp: returning_string_def sanitizeSearchQuery_def)
  from again show "transform searchQuery (JString t) = Inr (JString t)"
    by (auto simp: returning_string_def)
next
  assume a: "sanitizeFileName (JString s) = Inr t \<and> \<not> sublist (js ''..'') t"
  then have again: "sanitizeFileName (JString t) = Inr t"
    by (auto intro: sanitizeFileName_fixed_point)
  then show "sanitizeFileName (JString t) = Inr t" .
  from a show "transform fileName (JString s) = Inr (JString t)"
    by (simp add: returning_string_def)
  from again show "transform fileName (JString t) = Inr (JString t)"
    by (simp add: returning_string_def)
next
  show "\<forall>sch\<in>{photoDescription, searchQuery, copyrightNotice}.
        transform sch JUndefined = Inr (JString [])
        \<and> transform sch (JString []) = Inr (JString [])"
    by simp
next
  obtain xs where xs: "transform tags v = Inr (JArray xs)"
    using transform_tags_returns_array by blast
  have "transform tags (JArray xs) = Inr (JArray [])"
    by (rule transform_tags_of_array)
  with xs show "\<exists>xs. transform tags v = Inr (JArray xs)
        \<and> transform tags (JArray xs) = Inr (JArray [])
        \<and> (transform tags (JArray xs) = transform tags v) = (xs = [])"
    by auto
qed

theorem transforms_idempotent_on_clean_output_witness:
  "sanitizeText (JString (js ''  Sunset at the lake ''))
     = Inr (js ''Sunset at the lake'')
   \<and> cu CHR ''&'' \<notin> set (js ''Sunset at the lake'')
   \<and> \<not> is_whitespace (hd (js ''Sunset at the lake''))
   \<and> \<not> is_whitespace (last (js ''Sunset at the lake''))
   \<and> sanitizeText (JString (js ''Sunset at the lake'')) = Inr (js ''Sunset at the lake'')
   \<and> transform copyrightNotice (JString (js ''Sunset at the lake''))
     = Inr (JString (js ''Sunset at the lake''))
   \<and> sanitizeSearchQuery (JString (js '' cats & dogs '')) = Inr (js ''cats  dogs'')
   \<and> \<not> is_whitespace (hd (js ''cats  dogs''))
   \<and> \<not> is_whitespace (last (js ''cats  dogs''))
   \<and> sanitizeSearchQuery (JString (js ''cats  dogs'')) = Inr (js ''cats  dogs'')
   \<and> transform searchQuery (JString (js ''cats  dogs'')) = Inr (JString (js ''cats  dogs''))
   \<and> sanitizeFileName (JString (js ''my photo.png'')) = Inr (js ''my_photo.png'')
   \<and> \<not> sublist (js ''..'') (js ''my_photo.png'')
   \<and> sanitizeFileName (JString (js ''my_photo.png'')) = Inr (js ''my_photo.png'')
   \<and> transform fileName (JString (js ''my_photo.png'')) = Inr (JString (js ''my_photo.png''))
   \<and> transform photoDescription JUndefined = Inr (JString [])
   \<and> transform photoDescription (JString []) = Inr (JString [])
   \<and> transform tags (JString (js ''a,b'')) = Inr (JArray [js ''a'', js ''b''])
   \<and> transform tags (JArray [js ''a'', js ''b'']) = Inr (JArray [])
   \<and> transform tags JUndefined = Inr (JArray [])
   \<and> transform tags (JArray []) = Inr (JArray [])"
proof -
  have title: "sanitizeText (JString (js ''  Sunset at the lake ''))
      = Inr (js ''Sunset at the lake'')"
    "cu CHR ''&'' \<notin> set (js ''Sunset at the lake'')"
    "\<not> is_whitespace (hd (js ''Sunset at the lake''))"
    "\<not> is_whitespace (last (js ''Sunset at the lake''))"
    by (simp_all add: sanitizeText_def Let_def string_defs class_defs)
  have query: "sanitizeSearchQuery (JString (js '' cats & dogs '')) = Inr (js ''cats  dogs'')"
    "\<not> is_whitespace (hd (js ''cats  dogs''))"
    "\<not> is_whitespace (last (js ''cats  dogs''))"
    by (simp_all add: sanitizeSearchQuery_def Let_def string_defs class_defs)
  have name: "sanitizeFileName (JString (js ''my photo.png'')) = Inr (js ''my_photo.png'')"
    "\<not> sublist (js ''..'') (js ''my_photo.png'')"
    by (simp_all add: sanitizeFileName_def Let_def string_defs class_defs
        sublist_Cons_right)
  have tag: "transform tags (JString (js ''a,b'')) = Inr (JArray [js ''a'', js ''b''])"
    "transform tags JUndefined = Inr (JArray [])"
    by (simp_all add: sanitizeTags_def sanitizeText_def returning_array_def Let_def
        string_defs class_defs)
  from transforms_idempotent_on_clean_output
         [of "js ''  Sunset at the lake ''" "js ''Sunset at the lake''" JUndefined]
       transforms_idempotent_on_clean_output
         [of "js '' cats & dogs ''" "js ''cats  dogs''" "JString (js ''a,b'')"]
       transforms_idempotent_on_clean_output
         [of "js ''my photo.png''" "js ''my_photo.png''" JUndefined]
       title query name tag
  show ?thesis
    by simp
qed

section \<open>Properties of the upload validation\<close>

text \<open>
  C5.  \<^verbatim>\<open>validateFileUpload\<close> never throws and runs its three checks whatever the earlier
  ones found: the error list is the message of the size check if the size exceeds
  10 MiB (10485760 bytes), followed by the message of the type check if the MIME type
  is not one of the five allowed, followed by the message of the name check if the
  sanitized name is empty.  \<^verbatim>\<open>isValid\<close> holds exactly when that list is empty, and
  \<^verbatim>\<open>sanitizedName\<close> is the result of \<^verbatim>\<open>sanitizeFileName\<close> on the file's name.
\<close>

theorem validateFileUpload_reports_every_failed_check:
  "\<exists>r sanitized.
     validateFileUpload f = Inr r
     \<and> sanitizeFileName (JString (file_name f)) = Inr sanitized
     \<and> sanitizedName r = sanitized
     \<and> errors r =
         (if file_size f > 10485760 then [js ''File size exceeds 10MB limit''] else [])
         @ (if file_type f \<notin> {js ''image/jpeg'', js ''image/jpg'', js ''image/png'',
                                 js ''image/gif'', js ''image/webp''}
            then [js ''Invalid file type. Only JPEG, PNG, GIF, and WebP are allowed'']
            else [])
         @ (if sanitized = [] then [js ''Invalid file name''] else [])
     \<and> isValid r = (errors r = [])"
  by (simp add: validateFileUpload_def sanitizeFileName_string Let_def allowedTypes_def)

theorem validateFileUpload_reports_every_failed_check_witness:
  "validateFileUpload \<lparr>file_size = 20000000, file_type = js ''text/plain'',
                        file_name = js ''??''\<rparr>
   = Inr \<lparr>isValid = False, sanitizedName = [],
          errors = [js ''File size exceeds 10MB limit'',
                    js ''Invalid file type. Only JPEG, PNG, GIF, and WebP are allowed'',
                    js ''Invalid file name'']\<rparr>
   \<and> validateFileUpload \<lparr>file_size = 10485760, file_type = js ''image/png'',
                        file_name = js ''my photo.png''\<rparr>
   = Inr \<lparr>isValid = True, sanitizedName = js ''my_photo.png'', errors = []\<rparr>
   \<and> validateFileUpload \<lparr>file_size = 10485761, file_type = js ''image/gif'',
                        file_name = js ''a.gif''\<rparr>
   = Inr \<lparr>isValid = False, sanitizedName = js ''a.gif'',
          errors = [js ''File size exceeds 10MB limit'']\<rparr>"
  using validateFileUpload_reports_every_failed_check
          [of "\<lparr>file_size = 20000000, file_type = js ''text/plain'', file_name = js ''??''\<rparr>"]
        validateFileUpload_reports_every_failed_check
          [of "\<lparr>file_size = 10485760, file_type = js ''image/png'',
                file_name = js ''my photo.png''\<rparr>"]
        validateFileUpload_reports_every_failed_check
          [of "\<lparr>file_size = 10485761, file_type = js ''image/gif'',
                file_name = js ''a.gif''\<rparr>"]
  by (simp add: validateFileUpload_def sanitizeFileName_def Let_def allowedTypes_def
      string_defs class_defs)

section \<open>Properties of the Content-Security-Policy header\<close>

text \<open>
  C6.  \<^verbatim>\<open>buildCSPHeader\<close> is a constant: the clauses of the twelve directives in the
  order of the table, each the directive name followed by its sources separated by
  single spaces, the last one, \<^verbatim>\<open>upgrade-insecure-requests\<close>, bare because it has no
  source; consecutive clauses are separated by \<^verbatim>\<open>"; "\<close> and nothing follows the last.
  \<^verbatim>\<open>default-src 'self'\<close> occurs in it exactly once.
\<close>

theorem buildCSPHeader_serialization:
  "buildCSPHeader =
     ''default-src 'self'; script-src 'self' 'unsafe-eval' 'unsafe-inline' https://vercel.live; style-src 'self' 'unsafe-inline' https://fonts.googleapis.com; font-src 'self' https://fonts.gstatic.com data:; img-src 'self' data: blob: https:; media-src 'self' blob: data:; object-src 'none'; frame-src 'none'; base-uri 'self'; form-action 'self'; frame-ancestors 'none'; upgrade-insecure-requests''
   \<and> buildCSPHeader =
       join ''; '' (map (\<lambda>(directive, sources).
                            if sources = [] then directive
                            else directive @ '' '' @ join '' '' sources) CSP_DIRECTIVES)
   \<and> map fst CSP_DIRECTIVES =
       [''default-src'', ''script-src'', ''style-src'', ''font-src'', ''img-src'',
        ''media-src'', ''object-src'', ''frame-src'', ''base-uri'', ''form-action'',
        ''frame-ancestors'', ''upgrade-insecure-requests'']
   \<and> occurrences (''default-src 'self'' @ [CHR 0x27]) buildCSPHeader = 1
   \<and> \<not> suffix ''; '' buildCSPHeader \<and> \<not> suffix '';'' buildCSPHeader"
proof (intro conjI)
  show "buildCSPHeader =
     ''default-src 'self'; script-src 'self' 'unsafe-eval' 'unsafe-inline' https://vercel.live; style-src 'self' 'unsafe-inline' https://fonts.googleapis.com; font-src 'self' https://fonts.gstatic.com data:; img-src 'self' data: blob: https:; media-src 'self' blob: data:; object-src 'none'; frame-src 'none'; base-uri 'self'; form-action 'self'; frame-ancestors 'none'; upgrade-insecure-requests''"
    by (simp add: buildCSPHeader_def CSP_DIRECTIVES_def)
  show "buildCSPHeader =
       join ''; '' (map (\<lambda>(directive, sources).
                            if sources = [] then directive
                            else directive @ '' '' @ join '' '' sources) CSP_DIRECTIVES)"
    by (simp add: buildCSPHeader_def)
  show "map fst CSP_DIRECTIVES =
       [''default-src'', ''script-src'', ''style-src'', ''font-src'', ''img-src'',
        ''media-src'', ''object-src'', ''frame-src'', ''base-uri'', ''form-action'',
        ''frame-ancestors'', ''upgrade-insecure-requests'']"
    by (simp add: CSP_DIRECTIVES_def)
  show "occurrences (''default-src 'self'' @ [CHR 0x27]) buildCSPHeader = 1"
    by (simp add: buildCSPHeader_def CSP_DIRECTIVES_def)
  show "\<not> suffix ''; '' buildCSPHeader"
    by (simp add: buildCSPHeader_def CSP_DIRECTIVES_def suffix_def)
  show "\<not> suffix '';'' buildCSPHeader"
    by (simp add: buildCSPHeader_def CSP_DIRECTIVES_def suffix_def)
qed

section \<open>Properties of the rate limiter\<close>

lemma isAllowed_fresh:
  "attempts s i = None \<Longrightarrow>
   isAllowed now s i m w =
     (True, s\<lparr>attempts := (attempts s)(i \<mapsto> \<lparr>count = 1, resetTime = now + w\<rparr>)\<rparr>)"
  by (simp add: isAllowed_def)

lemma isAllowed_expired:
  "attempts s i = Some e \<Longrightarrow> now > resetTime e \<Longrightarrow>
   isAllowed now s i m w =
     (True, s\<lparr>attempts := (attempts s)(i \<mapsto> \<lparr>count = 1, resetTime = now + w\<rparr>)\<rparr>)"
  by (simp add: isAllowed_def)

lemma isAllowed_denied:
  "attempts s i = Some e \<Longrightarrow> now \<le> resetTime e \<Longrightarrow> m \<le> count e \<Longrightarrow>
   isAllowed now s i m w = (False, s)"
  by (simp add: isAllowed_def)

lemma isAllowed_counted:
  "attempts s i = Some e \<Longrightarrow> now \<le> resetTime e \<Longrightarrow> count e < m \<Longrightarrow>
   isAllowed now s i m w =
     (True, s\<lparr>attempts := (attempts s)(i \<mapsto> e\<lparr>count := count e + 1\<rparr>)\<rparr>)"
  by (simp add: isAllowed_def)

lemma counts_bounded_new: "counts_bounded m new_RateLimiter"
  by (simp add: counts_bounded_def new_RateLimiter_def)

lemma counts_bounded_isAllowed:
  assumes "1 \<le> m" and "counts_bounded m s"
  shows "counts_bounded m (snd (isAllowed now s i m w))"
proof (cases "attempts s i")
  case None
  with assms show ?thesis
    by (auto simp: isAllowed_fresh counts_bounded_def)
next
  case (Some e)
  with assms(2) have e: "count e \<in> \<int>" "1 \<le> count e" "count e < m + 1"
    by (auto simp: counts_bounded_def)
  consider "now > resetTime e" | "now \<le> resetTime e" "m \<le> count e"
    | "now \<le> resetTime e" "count e < m"
    by linarith
  then show ?thesis
  proof cases
    case 1
    with Some assms show ?thesis
      by (auto simp: isAllowed_expired counts_bounded_def)
  next
    case 2
    with Some assms show ?thesis
      by (simp add: isAllowed_denied)
  next
    case 3
    have "isAllowed now s i m w =
        (True, s\<lparr>attempts := (attempts s)(i \<mapsto> e\<lparr>count := count e + 1\<rparr>)\<rparr>)"
      using Some 3 by (simp add: isAllowed_counted)
    moreover have "count e + 1 \<in> \<int>" "1 \<le> count e + 1" "count e + 1 < m + 1"
      using e 3 by simp_all
    ultimately show ?thesis
      using assms(2) by (simp add: counts_bounded_def)
  qed
qed

lemma counts_bounded_reset: "counts_bounded m s \<Longrightarrow> counts_bounded m (reset s i)"
  by (auto simp: counts_bounded_def reset_def)

lemma counts_bounded_call:
  "1 \<le> m \<Longrightarrow> counts_bounded m s \<Longrightarrow> counts_bounded m (call m w s c)"
  by (cases c) (simp_all add: counts_bounded_isAllowed counts_bounded_reset)

lemma counts_bounded_calls:
  "1 \<le> m \<Longrightarrow> counts_bounded m s \<Longrightarrow> counts_bounded m (calls m w cs s)"
  unfolding calls_def
  by (induction cs arbitrary: s) (simp_all add: counts_bounded_call)

text \<open>
  C2.  \<^verbatim>\<open>isAllowed\<close> is a fixed-window counter.  With no entry for the identifier, or
  with the clock past the entry's \<^verbatim>\<open>resetTime\<close>, it installs \<open>count = 1\<close>,
  \<open>resetTime = now + windowMs\<close> and answers true; otherwise, with \<open>count \<ge> maxAttempts\<close>,
  it answers false; otherwise it increments \<open>count\<close> and answers true.  With
  \<open>maxAttempts = 2\<close> and \<open>windowMs = 1000\<close>, three calls for an identifier without an
  entry, the second and third at most 1000 ms after the first, answer true, true,
  false, and a call more than 1000 ms after the first answers true again.
\<close>

theorem isAllowed_fixed_window:
  "(attempts s i = None \<or> (\<exists>e. attempts s i = Some e \<and> now > resetTime e) \<longrightarrow>
      isAllowed now s i m w =
        (True, s\<lparr>attempts := (attempts s)(i \<mapsto> \<lparr>count = 1, resetTime = now + w\<rparr>)\<rparr>))
   \<and> (\<forall>e. attempts s i = Some e \<and> now \<le> resetTime e \<and> count e \<ge> m \<longrightarrow>
      isAllowed now s i m w = (False, s))
   \<and> (\<forall>e. attempts s i = Some e \<and> now \<le> resetTime e \<and> count e < m \<longrightarrow>
      isAllowed now s i m w =
        (True, s\<lparr>attempts := (attempts s)(i \<mapsto> e\<lparr>count := count e + 1\<rparr>)\<rparr>))
   \<and> (attempts s i = None \<and> t2 \<le> t1 + 1000 \<and> t3 \<le> t1 + 1000 \<and> t1 + 1000 < t4 \<longrightarrow>
        (let (r1, s1) = isAllowed t1 s i 2 1000;
             (r2, s2) = isAllowed t2 s1 i 2 1000;
             (r3, s3) = isAllowed t3 s2 i 2 1000;
             (r4, s4) = isAllowed t4 s3 i 2 1000
         in [r1, r2, r3, r4] = [True, True, False, True]))"
proof (intro conjI allI impI)
  assume "attempts s i = None \<or> (\<exists>e. attempts s i = Some e \<and> now > resetTime e)"
  then show "isAllowed now s i m w =
    (True, s\<lparr>attempts := (attempts s)(i \<mapsto> \<lparr>count = 1, resetTime = now + w\<rparr>)\<rparr>)"
    by (auto simp: isAllowed_fresh isAllowed_expired)
next
  fix e assume "attempts s i = Some e \<and> now \<le> resetTime e \<and> count e \<ge> m"
  then show "isAllowed now s i m w = (False, s)"
    by (simp add: isAllowed_denied)
next
  fix e assume "attempts s i = Some e \<and> now \<le> resetTime e \<and> count e < m"
  then show "isAllowed now s i m w =
    (True, s\<lparr>attempts := (attempts s)(i \<mapsto> e\<lparr>count := count e + 1\<rparr>)\<rparr>)"
    by (simp add: isAllowed_counted)
next
  assume "attempts s i = None \<and> t2 \<le> t1 + 1000 \<and> t3 \<le> t1 + 1000 \<and> t1 + 1000 < t4"
  then show "let (r1, s1) = isAllowed t1 s i 2 1000;
                 (r2, s2) = isAllowed t2 s1 i 2 1000;
                 (r3, s3) = isAllowed t3 s2 i 2 1000;
                 (r4, s4) = isAllowed t4 s3 i 2 1000
             in [r1, r2, r3, r4] = [True, True, False, True]"
    by (simp add: isAllowed_def)
qed

theorem isAllowed_fixed_window_witness:
  "isAllowed 5 new_RateLimiter (js ''user1'') 2 1000 =
     (True, \<lparr>attempts = [js ''user1'' \<mapsto> \<lparr>count = 1, resetTime = 1005\<rparr>]\<rparr>)
   \<and> isAllowed 2000 \<lparr>attempts = [js ''user1'' \<mapsto> \<lparr>count = 2, resetTime = 1005\<rparr>]\<rparr>
        (js ''user1'') 2 1000 =
     (True, \<lparr>attempts = [js ''user1'' \<mapsto> \<lparr>count = 1, resetTime = 3000\<rparr>]\<rparr>)
   \<and> isAllowed 900 \<lparr>attempts = [js ''user1'' \<mapsto> \<lparr>count = 2, resetTime = 1005\<rparr>]\<rparr>
        (js ''user1'') 2 1000 =
     (False, \<lparr>attempts = [js ''user1'' \<mapsto> \<lparr>count = 2, resetTime = 1005\<rparr>]\<rparr>)
   \<and> isAllowed 900 \<lparr>attempts = [js ''user1'' \<mapsto> \<lparr>count = 1, resetTime = 1005\<rparr>]\<rparr>
        (js ''user1'') 2 1000 =
     (True, \<lparr>attempts = [js ''user1'' \<mapsto> \<lparr>count = 2, resetTime = 1005\<rparr>]\<rparr>)
   \<and> (let (r1, s1) = isAllowed 5 new_RateLimiter (js ''user1'') 2 1000;
           (r2, s2) = isAllowed 400 s1 (js ''user1'') 2 1000;
           (r3, s3) = isAllowed 1005 s2 (js ''user1'') 2 1000;
           (r4, s4) = isAllowed 1006 s3 (js ''user1'') 2 1000
       in [r1, r2, r3, r4] = [True, True, False, True])"
  using isAllowed_fixed_window
          [of new_RateLimiter "js ''user1''" 5 2 1000 400 5 1005 1006]
        isAllowed_fixed_window
          [of "\<lparr>attempts = [js ''user1'' \<mapsto> \<lparr>count = 2, resetTime = 1005\<rparr>]\<rparr>"
              "js ''user1''" 2000 2 1000 0 0 0 0]
        isAllowed_fixed_window
          [of "\<lparr>attempts = [js ''user1'' \<mapsto> \<lparr>count = 2, resetTime = 1005\<rparr>]\<rparr>"
              "js ''user1''" 900 2 1000 0 0 0 0]
        isAllowed_fixed_window
          [of "\<lparr>attempts = [js ''user1'' \<mapsto> \<lparr>count = 1, resetTime = 1005\<rparr>]\<rparr>"
              "js ''user1''" 900 2 1000 0 0 0 0]
  by (simp add: new_RateLimiter_def isAllowed_def)

text \<open>
  C9.  \<^verbatim>\<open>isAllowed\<close> denies exactly when the identifier has an entry that has not
  expired and whose \<open>count\<close> has reached \<open>maxAttempts\<close>, and a denied call leaves the
  limiter as it was: the entry of the denied identifier and the entry of every other
  identifier are unchanged.
\<close>

theorem isAllowed_denial_frame:
  "(\<not> fst (isAllowed now s i m w)) =
     (\<exists>e. attempts s i = Some e \<and> now \<le> resetTime e \<and> m \<le> count e)
   \<and> (\<not> fst (isAllowed now s i m w) \<longrightarrow>
        snd (isAllowed now s i m w) = s
        \<and> (\<forall>j. attempts (snd (isAllowed now s i m w)) j = attempts s j))"
  by (auto simp: isAllowed_def split: option.splits if_splits)

theorem isAllowed_denial_frame_witness:
  "\<not> fst (isAllowed 900 \<lparr>attempts = [js ''a'' \<mapsto> \<lparr>count = 3, resetTime = 1000\<rparr>,
                                      js ''b'' \<mapsto> \<lparr>count = 1, resetTime = 950\<rparr>]\<rparr>
             (js ''a'') 3 1000)
   \<and> snd (isAllowed 900 \<lparr>attempts = [js ''a'' \<mapsto> \<lparr>count = 3, resetTime = 1000\<rparr>,
                                      js ''b'' \<mapsto> \<lparr>count = 1, resetTime = 950\<rparr>]\<rparr>
             (js ''a'') 3 1000)
     = \<lparr>attempts = [js ''a'' \<mapsto> \<lparr>count = 3, resetTime = 1000\<rparr>,
                    js ''b'' \<mapsto> \<lparr>count = 1, resetTime = 950\<rparr>]\<rparr>"
  using isAllowed_denial_frame
          [of 900 "\<lparr>attempts = [js ''a'' \<mapsto> \<lparr>count = 3, resetTime = 1000\<rparr>,
                                 js ''b'' \<mapsto> \<lparr>count = 1, resetTime = 950\<rparr>]\<rparr>"
              "js ''a''" 3 1000]
  by (simp add: js_def)

lemma whole_number_below_successor:
  fixes c m :: real
  assumes "c \<in> \<int>" and "m \<in> \<int>" and "c < m + 1"
  shows "c \<le> m"
proof -
  from assms(1) obtain a where a: "c = of_int a"
    by (rule Ints_cases)
  from assms(2) obtain b where b: "m = of_int b"
    by (rule Ints_cases)
  from assms(3) have "(of_int a :: real) < of_int (b + 1)"
    by (simp add: a b)
  then have "a < b + 1"
    by (simp only: of_int_less_iff)
  then show ?thesis
    by (simp add: a b)
qed

text \<open>
  C10, as stated, fails: \<^verbatim>\<open>maxAttempts\<close> is a \<^verbatim>\<open>number\<close>, and with \<open>maxAttempts = 1.5\<close>
  the second call within the window finds \<open>count = 1 < 1.5\<close> and increments it to
  \<open>2 > 1.5\<close>.
\<close>

theorem count_exceeds_fractional_maxAttempts:
  "(1::real) \<le> 3 / 2 \<and> (0::real) < 1000
   \<and> attempts (calls (3 / 2) 1000 [IsAllowed (js ''u'') 0, IsAllowed (js ''u'') 1]
        new_RateLimiter) (js ''u'') = Some \<lparr>count = 2, resetTime = 1000\<rparr>
   \<and> \<not> count \<lparr>count = 2, resetTime = 1000\<rparr> \<le> (3 / 2 :: real)"
  by (simp add: calls_def isAllowed_def new_RateLimiter_def)

text \<open>
  C10, amended.  For a limiter created empty and then used with one
  \<open>maxAttempts \<ge> 1\<close> and one \<open>windowMs > 0\<close>, after every sequence of \<^verbatim>\<open>isAllowed\<close> and
  \<^verbatim>\<open>reset\<close> calls (at any clock readings) the count of every entry of the map is a
  whole number with \<open>1 \<le> count < maxAttempts + 1\<close>; when \<open>maxAttempts\<close> is itself a
  whole number, that is \<open>1 \<le> count \<le> maxAttempts\<close>.
\<close>

theorem count_between_one_and_whole_maxAttempts:
  assumes "1 \<le> maxAttempts" and "0 < windowMs"
    and "attempts (calls maxAttempts windowMs cs new_RateLimiter) identifier = Some e"
  shows "count e \<in> \<int> \<and> 1 \<le> count e \<and> count e < maxAttempts + 1
    \<and> (maxAttempts \<in> \<int> \<longrightarrow> count e \<le> maxAttempts)"
proof -
  have "counts_bounded maxAttempts (calls maxAttempts windowMs cs new_RateLimiter)"
    using assms(1) by (simp add: counts_bounded_calls counts_bounded_new)
  with assms(3) have e: "count e \<in> \<int>" "1 \<le> count e" "count e < maxAttempts + 1"
    by (simp_all add: counts_bounded_def)
  then show ?thesis
    by (simp add: whole_number_below_successor)
qed

theorem count_between_one_and_whole_maxAttempts_witness:
  "(1::real) \<le> 2 \<and> (0::real) < 1000 \<and> (2::real) \<in> \<int>
   \<and> attempts (calls 2 1000
        [IsAllowed (js ''u'') 0, IsAllowed (js ''u'') 10, IsAllowed (js ''u'') 20,
         Reset (js ''v''), IsAllowed (js ''v'') 30]
        new_RateLimiter) (js ''u'') = Some \<lparr>count = 2, resetTime = 1000\<rparr>
   \<and> count \<lparr>count = 2, resetTime = 1000\<rparr> \<in> \<int>
   \<and> 1 \<le> count \<lparr>count = 2, resetTime = 1000\<rparr>
   \<and> count \<lparr>count = 2, resetTime = 1000\<rparr> < (2::real) + 1
   \<and> count \<lparr>count = 2, resetTime = 1000\<rparr> \<le> (2::real)"
proof -
  have run: "attempts (calls 2 1000
        [IsAllowed (js ''u'') 0, IsAllowed (js ''u'') 10, IsAllowed (js ''u'') 20,
         Reset (js ''v''), IsAllowed (js ''v'') 30]
        new_RateLimiter) (js ''u'') = Some \<lparr>count = 2, resetTime = 1000\<rparr>"
    by (simp add: calls_def isAllowed_def reset_def new_RateLimiter_def js_def)
  from count_between_one_and_whole_maxAttempts [OF _ _ run] run show ?thesis
    by simp
qed

end
